theory Spec2Isabelle
  imports Complex_Main
begin

section \<open>JavaScript values used by script.js\<close>

text \<open>
  Text is kept as the UTF-8 bytes of the script and of the document. A property read that
  yields \<open>undefined\<close> (a missing data attribute) or \<open>null\<close> (a failed
  \<open>querySelector\<close> or \<open>getAttribute\<close>) is \<open>None\<close>.
\<close>

datatype js_error = TypeError | SyntaxError

text \<open>
  The numbers the script computes are array indices and lengths: integers, or \<open>NaN\<close>
  once a remainder by zero has been taken.
\<close>

datatype number = Number int | NaN

fun js_add :: "number \<Rightarrow> number \<Rightarrow> number" where
  "js_add (Number a) (Number b) = Number (a + b)"
| "js_add _ _ = NaN"

fun js_sub :: "number \<Rightarrow> number \<Rightarrow> number" where
  "js_sub (Number a) (Number b) = Number (a - b)"
| "js_sub _ _ = NaN"

text \<open>
  The operator \<open>%\<close>: the remainder takes the sign of the dividend, and a zero divisor
  gives \<open>NaN\<close>.
\<close>

fun js_rem :: "number \<Rightarrow> number \<Rightarrow> number" where
  "js_rem (Number a) (Number b) =
     (if b = 0 then NaN else Number (sgn a * (\<bar>a\<bar> mod \<bar>b\<bar>)))"
| "js_rem _ _ = NaN"

text \<open>
  A template literal prints \<open>undefined\<close> by name; assigning \<open>undefined\<close> to
  \<open>textContent\<close> (a nullable string attribute) stores the empty string.
\<close>

definition template_value :: "string option \<Rightarrow> string" where
  "template_value v = (case v of None \<Rightarrow> ''undefined'' | Some s \<Rightarrow> s)"

definition textContent_value :: "string option \<Rightarrow> string" where
  "textContent_value v = (case v of None \<Rightarrow> [] | Some s \<Rightarrow> s)"

text \<open>A \<open>classList\<close> is an ordered set of tokens.\<close>

definition classList_add :: "string \<Rightarrow> string list \<Rightarrow> string list" where
  "classList_add tok cl = (if tok \<in> set cl then cl else cl @ [tok])"

definition classList_remove :: "string \<Rightarrow> string list \<Rightarrow> string list" where
  "classList_remove tok cl = filter (\<lambda>c. c \<noteq> tok) cl"

definition classList_contains :: "string \<Rightarrow> string list \<Rightarrow> bool" where
  "classList_contains tok cl = (tok \<in> set cl)"


section \<open>The modal\<close>

text \<open>
  A work item, as \<open>openModal\<close> reads it: \<open>img\<close> is the \<open>src\<close> of its first
  \<open>img\<close> descendant (\<open>None\<close> when \<open>querySelector("img")\<close> finds none), and
  \<open>dataset\<close> maps the name of a data attribute to its value.
\<close>

record work_item =
  img :: "string option"
  dataset :: "string \<rightharpoonup> string"

text \<open>
  The state the modal code touches: the variable \<open>currentIndex\<close>, the \<open>src\<close> of
  \<open>modalImg\<close>, the \<open>textContent\<close> of \<open>modalTitle\<close> and \<open>modalMeta\<close>, and the
  \<open>classList\<close> of \<open>modal\<close>. The four modal elements are taken to exist.
\<close>

record modal_state =
  currentIndex :: number
  modalImg_src :: string
  modalTitle_textContent :: string
  modalMeta_textContent :: string
  modal_classList :: "string list"

text \<open>\<open>items[index]\<close>: \<open>undefined\<close> unless the index is an integer within the array.\<close>

fun item_at :: "work_item list \<Rightarrow> number \<Rightarrow> work_item option" where
  "item_at items (Number i) =
     (if 0 \<le> i \<and> i < int (length items) then Some (items ! nat i) else None)"
| "item_at items NaN = None"

text \<open>
  The text between the two substitutions of the template literal on line 240, byte for byte
  as the file has it: a space, the bytes \<open>C3 A2 E2 82 AC E2 80 9D\<close>, a space. Read as
  UTF-8 these bytes are the three characters U+00E2, U+20AC, U+201D.
\<close>

definition meta_separator :: string where
  "meta_separator =
     [CHR '' '', CHR 0xC3, CHR 0xA2, CHR 0xE2, CHR 0x82, CHR 0xAC, CHR 0xE2, CHR 0x80, CHR 0x9D,
      CHR '' '']"

text \<open>The em dash U+2014 in UTF-8, between two spaces.\<close>

definition em_dash_separator :: string where
  "em_dash_separator = [CHR '' '', CHR 0xE2, CHR 0x80, CHR 0x94, CHR '' '']"

text \<open>
  \<open>openModal\<close>. The only statement that can throw is the first use of \<open>item\<close>
  (\<open>item.querySelector("img").src\<close>, when \<open>item\<close> is \<open>undefined\<close> or has no image);
  it comes before every assignment, so a throw leaves the state as it was.
\<close>

definition openModal :: "work_item list \<Rightarrow> number \<Rightarrow> modal_state \<Rightarrow> js_error + modal_state" where
  "openModal items index st =
     (case item_at items index of
        None \<Rightarrow> Inl TypeError
      | Some item \<Rightarrow>
          (case img item of
             None \<Rightarrow> Inl TypeError
           | Some image_src \<Rightarrow>
               Inr (st\<lparr>modalImg_src := image_src,
                        modalTitle_textContent := textContent_value (dataset item ''title''),
                        modalMeta_textContent :=
                          template_value (dataset item ''medium'') @ meta_separator
                            @ template_value (dataset item ''year''),
                        currentIndex := index,
                        modal_classList := classList_add ''active'' (modal_classList st)\<rparr>)))"

definition items_length :: "work_item list \<Rightarrow> number" where
  "items_length items = Number (int (length items))"

definition showPrev :: "work_item list \<Rightarrow> modal_state \<Rightarrow> js_error + modal_state" where
  "showPrev items st =
     openModal items
       (js_rem (js_add (js_sub (currentIndex st) (Number 1)) (items_length items))
          (items_length items)) st"

definition showNext :: "work_item list \<Rightarrow> modal_state \<Rightarrow> js_error + modal_state" where
  "showNext items st =
     openModal items (js_rem (js_add (currentIndex st) (Number 1)) (items_length items)) st"

text \<open>The close button's \<open>onclick\<close>.\<close>

definition modal_close :: "modal_state \<Rightarrow> modal_state" where
  "modal_close st = st\<lparr>modal_classList := classList_remove ''active'' (modal_classList st)\<rparr>"

text \<open>
  The \<open>keydown\<close> listener: an early return while the modal is not active, then the three
  tests of \<open>e.key\<close> in the order of the source; a throw ends the listener.
\<close>

definition keydown :: "work_item list \<Rightarrow> string \<Rightarrow> modal_state \<Rightarrow> js_error + modal_state" where
  "keydown items key st =
     (if \<not> classList_contains ''active'' (modal_classList st) then Inr st
      else
        (case (if key = ''ArrowLeft'' then showPrev items st else Inr st) of
           Inl e \<Rightarrow> Inl e
         | Inr st1 \<Rightarrow>
             (case (if key = ''ArrowRight'' then showNext items st1 else Inr st1) of
                Inl e \<Rightarrow> Inl e
              | Inr st2 \<Rightarrow>
                  Inr (if key = ''Escape'' then modal_close st2 else st2))))"

text \<open>
  The events the modal listens to. \<open>ItemClick i\<close> is a click on the \<open>i\<close>-th work item
  in document order, whose listener calls \<open>openModal(i)\<close>.
\<close>

datatype modal_event =
    ItemClick nat
  | CloseClick
  | PrevClick
  | NextClick
  | OverlayLeftClick
  | OverlayRightClick
  | KeyDown string

fun modal_listener :: "work_item list \<Rightarrow> modal_event \<Rightarrow> modal_state \<Rightarrow> js_error + modal_state" where
  "modal_listener items (ItemClick i) st = openModal items (Number (int i)) st"
| "modal_listener items CloseClick st = Inr (modal_close st)"
| "modal_listener items PrevClick st = showPrev items st"
| "modal_listener items NextClick st = showNext items st"
| "modal_listener items OverlayLeftClick st = showPrev items st"
| "modal_listener items OverlayRightClick st = showNext items st"
| "modal_listener items (KeyDown key) st = keydown items key st"

text \<open>
  The state after an event: that of the listener, or the state before the event when the
  listener threw (every throw of the modal code comes before its first assignment).
\<close>

definition modal_dispatch :: "work_item list \<Rightarrow> modal_event \<Rightarrow> modal_state \<Rightarrow> modal_state" where
  "modal_dispatch items ev st =
     (case modal_listener items ev st of Inl e \<Rightarrow> st | Inr st' \<Rightarrow> st')"

fun modal_run :: "work_item list \<Rightarrow> modal_event list \<Rightarrow> modal_state \<Rightarrow> modal_state" where
  "modal_run items [] st = st"
| "modal_run items (ev # evs) st = modal_run items evs (modal_dispatch items ev st)"

text \<open>\<open>showNext\<close> called \<open>n\<close> times in a row; a throw ends the sequence.\<close>

fun showNext_times :: "work_item list \<Rightarrow> nat \<Rightarrow> modal_state \<Rightarrow> js_error + modal_state" where
  "showNext_times items 0 st = Inr st"
| "showNext_times items (Suc n) st =
     (case showNext items st of Inl e \<Rightarrow> Inl e | Inr st' \<Rightarrow> showNext_times items n st')"


section \<open>Navigation links\<close>

text \<open>
  An element a selector can find, with the layout numbers the script reads from it;
  \<open>element_id\<close> is \<open>getAttribute('id')\<close>, \<open>None\<close> for \<open>null\<close>.
\<close>

record section_element =
  element_id :: "string option"
  offsetTop :: int
  offsetHeight :: int

text \<open>A \<open>.nav-link\<close>: \<open>getAttribute('href')\<close> and \<open>style.fontWeight\<close>.\<close>

record nav_link =
  href :: "string option"
  fontWeight :: string

text \<open>
  The document, fixed after load: \<open>querySelector\<close> answers \<open>document.querySelector\<close>
  for a selector string (\<open>Inl SyntaxError\<close> when the selector is not valid, \<open>Inr None\<close>
  for \<open>null\<close>),
  \<open>navbar\<close> is the \<open>offsetHeight\<close> of the \<open>.navbar\<close> element (\<open>None\<close> when there is
  none) and \<open>sections\<close> is \<open>querySelectorAll('section')\<close> in document order.
\<close>

record page =
  querySelector :: "string \<Rightarrow> js_error + section_element option"
  navbar :: "int option"
  sections :: "section_element list"

text \<open>
  The scrolling the script asks the window for. Both calls are smooth (animated), so what
  the model records is the request, in order; \<open>scrollY\<close> is \<open>window.scrollY\<close>, which may be
  fractional.
\<close>

datatype scroll_request = ScrollTo int | ScrollIntoView section_element

record nav_state =
  navLinks :: "nav_link list"
  scrollY :: real
  scroll_requests :: "scroll_request list"

text \<open>A \<open>null\<close> passed where a string is expected is the string \<open>null\<close>.\<close>

definition null_to_string :: "string option \<Rightarrow> string" where
  "null_to_string v = (case v of None \<Rightarrow> ''null'' | Some s \<Rightarrow> s)"

text \<open>\<open>updateActiveLink\<close>, for the link at position \<open>k\<close> of the \<open>.nav-link\<close> list.\<close>

definition updateActiveLink :: "nat \<Rightarrow> nav_link list \<Rightarrow> nav_link list" where
  "updateActiveLink k links =
     (let links' = map (\<lambda>link. link\<lparr>fontWeight := ''500''\<rparr>) links
      in links'[k := (links' ! k)\<lparr>fontWeight := ''700''\<rparr>])"

text \<open>The click listener that \<open>initSmoothScroll\<close> attaches to the \<open>k\<close>-th link.\<close>

definition initSmoothScroll_click :: "page \<Rightarrow> nat \<Rightarrow> nav_state \<Rightarrow> js_error + nav_state" where
  "initSmoothScroll_click pg k st =
     (let targetId = href (navLinks st ! k)
      in case querySelector pg (null_to_string targetId) of
           Inl e \<Rightarrow> Inl e
         | Inr None \<Rightarrow> Inr st
         | Inr (Some targetSection) \<Rightarrow>
             (case navbar pg of
                None \<Rightarrow> Inl TypeError
              | Some navHeight \<Rightarrow>
                  Inr (st\<lparr>scroll_requests :=
                            scroll_requests st @ [ScrollTo (offsetTop targetSection - navHeight)],
                          navLinks := updateActiveLink k (navLinks st)\<rparr>)))"

text \<open>
  The click listener of the second smooth-scroll block (lines 296 to 302): the result of
  \<open>querySelector\<close> is used without a test.
\<close>

definition scrollIntoView_click :: "page \<Rightarrow> nat \<Rightarrow> nav_state \<Rightarrow> js_error + nav_state" where
  "scrollIntoView_click pg k st =
     (case querySelector pg (null_to_string (href (navLinks st ! k))) of
        Inl e \<Rightarrow> Inl e
      | Inr None \<Rightarrow> Inl TypeError
      | Inr (Some target) \<Rightarrow>
          Inr (st\<lparr>scroll_requests := scroll_requests st @ [ScrollIntoView target]\<rparr>))"

text \<open>
  One listener of an event: what it throws is reported as an uncaught error and the next
  listener still runs. Neither listener above assigns anything before it can throw.
\<close>

definition run_listener ::
  "(nav_state \<Rightarrow> js_error + nav_state) \<Rightarrow> js_error list \<times> nav_state \<Rightarrow> js_error list \<times> nav_state" where
  "run_listener f r =
     (case f (snd r) of Inl e \<Rightarrow> (fst r @ [e], snd r) | Inr st' \<Rightarrow> (fst r, st'))"

text \<open>
  A click on the \<open>k\<close>-th navigation link. The second block registers its listener while
  the script is evaluated, \<open>initSmoothScroll\<close> registers later, on \<open>DOMContentLoaded\<close>,
  so the listeners run in that order. The result is the uncaught errors and the state.
\<close>

definition nav_link_click :: "page \<Rightarrow> nat \<Rightarrow> nav_state \<Rightarrow> js_error list \<times> nav_state" where
  "nav_link_click pg k st =
     (if k < length (navLinks st)
      then run_listener (initSmoothScroll_click pg k)
             (run_listener (scrollIntoView_click pg k) ([], st))
      else ([], st))"


section \<open>Scroll spy\<close>

text \<open>The test of the scroll listener of \<open>initScrollSpy\<close> for one section.\<close>

definition in_band :: "int \<Rightarrow> real \<Rightarrow> section_element \<Rightarrow> bool" where
  "in_band navHeight y section =
     (let sectionTop = offsetTop section - navHeight - 100;
          sectionHeight = offsetHeight section
      in y \<ge> of_int sectionTop \<and> y < of_int (sectionTop + sectionHeight))"

text \<open>
  The first loop: \<open>currentSection\<close> starts as the empty string and is overwritten by the
  \<open>id\<close> of each section whose test succeeds.
\<close>

fun currentSection_loop :: "int \<Rightarrow> real \<Rightarrow> string option \<Rightarrow> section_element list \<Rightarrow> string option" where
  "currentSection_loop navHeight y currentSection [] = currentSection"
| "currentSection_loop navHeight y currentSection (section # rest) =
     currentSection_loop navHeight y
       (if in_band navHeight y section then element_id section else currentSection) rest"

text \<open>The body of the second loop, for one link.\<close>

definition spy_link :: "string option \<Rightarrow> nav_link \<Rightarrow> nav_link" where
  "spy_link currentSection link =
     (let link1 = link\<lparr>fontWeight := ''500''\<rparr>
      in if href link1 = Some (''#'' @ null_to_string currentSection)
         then link1\<lparr>fontWeight := ''700''\<rparr> else link1)"

text \<open>
  The scroll listener; \<open>navHeight\<close> is the height \<open>initScrollSpy\<close> read when it ran.
\<close>

definition scrollSpy :: "page \<Rightarrow> int \<Rightarrow> nav_state \<Rightarrow> nav_state" where
  "scrollSpy pg navHeight st =
     (let currentSection = currentSection_loop navHeight (scrollY st) (Some []) (sections pg)
      in st\<lparr>navLinks := map (spy_link currentSection) (navLinks st)\<rparr>)"


section \<open>Language toggle\<close>

text \<open>
  An element of the document as the toggle sees it: its data attributes and its
  \<open>textContent\<close>. The elements are taken not to contain one another, and the toggle
  control is not one of them.
\<close>

record lang_element =
  lang_dataset :: "string \<rightharpoonup> string"
  textContent :: string

record lang_state =
  currentLang :: string
  langToggle_textContent :: string
  document_elements :: "lang_element list"

text \<open>The selector \<open>[data-en]\<close>.\<close>

definition has_data_en :: "lang_element \<Rightarrow> bool" where
  "has_data_en el = (lang_dataset el ''en'' \<noteq> None)"

definition langToggle_click :: "lang_state \<Rightarrow> lang_state" where
  "langToggle_click st =
     (let lang = (if currentLang st = ''en'' then ''fr'' else ''en'');
          label = (if lang = ''en'' then ''FR'' else ''EN'')
      in st\<lparr>currentLang := lang,
             langToggle_textContent := label,
             document_elements :=
               map (\<lambda>el. if has_data_en el
                          then el\<lparr>textContent := textContent_value (lang_dataset el lang)\<rparr>
                          else el)
                 (document_elements st)\<rparr>)"


section \<open>What the claims observe\<close>

text \<open>The current index is an integer \<open>i\<close> with \<open>0 \<le> i < items.length\<close>.\<close>

definition index_in_bounds :: "work_item list \<Rightarrow> modal_state \<Rightarrow> bool" where
  "index_in_bounds items st =
     (case currentIndex st of Number i \<Rightarrow> 0 \<le> i \<and> i < int (length items) | NaN \<Rightarrow> False)"

text \<open>
  The modal's image, title and metadata are the ones \<open>openModal\<close> writes for the given
  work item.
\<close>

definition shows_item :: "work_item \<Rightarrow> modal_state \<Rightarrow> bool" where
  "shows_item item st =
     (img item = Some (modalImg_src st)
      \<and> modalTitle_textContent st = textContent_value (dataset item ''title'')
      \<and> modalMeta_textContent st =
          template_value (dataset item ''medium'') @ meta_separator
            @ template_value (dataset item ''year''))"

text \<open>The modal carries the class \<open>active\<close>.\<close>

definition modal_active :: "modal_state \<Rightarrow> bool" where
  "modal_active st = classList_contains ''active'' (modal_classList st)"


section \<open>A sample document\<close>

text \<open>
  Three work items, a modal that has not been opened, the state \<open>openModal\<close> leaves
  behind on it, a page with two sections and three navigation links (the third points at
  no element), and a document with two translated elements, the
  first of which shows a text that differs from its \<open>data-en\<close> attribute. The
  instances below are evaluated on them.
\<close>

definition sample_items :: "work_item list" where
  "sample_items =
     [\<lparr>img = Some ''img/dawn.jpg'',
       dataset = [''title'' \<mapsto> ''Dawn'', ''medium'' \<mapsto> ''Oil'', ''year'' \<mapsto> ''2020'']\<rparr>,
      \<lparr>img = Some ''img/dusk.jpg'',
       dataset = [''title'' \<mapsto> ''Dusk'', ''medium'' \<mapsto> ''Ink'', ''year'' \<mapsto> ''2021'']\<rparr>,
      \<lparr>img = Some ''img/noon.jpg'',
       dataset = [''title'' \<mapsto> ''Noon'', ''medium'' \<mapsto> ''Clay'', ''year'' \<mapsto> ''2022'']\<rparr>]"

definition sample_modal_state :: modal_state where
  "sample_modal_state =
     \<lparr>currentIndex = Number 0, modalImg_src = [], modalTitle_textContent = [],
      modalMeta_textContent = [], modal_classList = [''modal'']\<rparr>"

definition sample_open :: "string \<Rightarrow> string \<Rightarrow> string \<Rightarrow> int \<Rightarrow> modal_state" where
  "sample_open source title meta i =
     \<lparr>currentIndex = Number i, modalImg_src = source, modalTitle_textContent = title,
      modalMeta_textContent = meta, modal_classList = [''modal'', ''active'']\<rparr>"

definition sample_about :: section_element where
  "sample_about = \<lparr>element_id = Some ''about'', offsetTop = 600, offsetHeight = 500\<rparr>"

definition sample_work :: section_element where
  "sample_work = \<lparr>element_id = Some ''work'', offsetTop = 1000, offsetHeight = 800\<rparr>"

definition sample_page :: page where
  "sample_page =
     \<lparr>querySelector =
        (\<lambda>selector. if selector = ''#about'' then Inr (Some sample_about)
                    else if selector = ''#work'' then Inr (Some sample_work)
                    else Inr None),
      navbar = Some 70,
      sections = [sample_about, sample_work]\<rparr>"

definition sample_nav_state :: nav_state where
  "sample_nav_state =
     \<lparr>navLinks = [\<lparr>href = Some ''#about'', fontWeight = ''700''\<rparr>,
                  \<lparr>href = Some ''#work'', fontWeight = ''500''\<rparr>,
                  \<lparr>href = Some ''#contact'', fontWeight = ''500''\<rparr>],
      scrollY = 1801 / 2,
      scroll_requests = []\<rparr>"

text \<open>
  A page for the scroll spy: three sections, the bands of the first two overlap, and four
  navigation links, the first of which points at the bare fragment \<open>#\<close>. The state is
  given by the scroll position.
\<close>

definition sample_contact :: section_element where
  "sample_contact = \<lparr>element_id = Some ''contact'', offsetTop = 1900, offsetHeight = 400\<rparr>"

definition sample_spy_page :: page where
  "sample_spy_page =
     \<lparr>querySelector =
        (\<lambda>selector. if selector = ''#about'' then Inr (Some sample_about)
                    else if selector = ''#work'' then Inr (Some sample_work)
                    else if selector = ''#contact'' then Inr (Some sample_contact)
                    else Inr None),
      navbar = Some 70,
      sections = [sample_about, sample_work, sample_contact]\<rparr>"

definition sample_spy_state :: "real \<Rightarrow> nav_state" where
  "sample_spy_state y =
     \<lparr>navLinks = [\<lparr>href = Some ''#'', fontWeight = ''500''\<rparr>,
                  \<lparr>href = Some ''#about'', fontWeight = ''700''\<rparr>,
                  \<lparr>href = Some ''#work'', fontWeight = ''500''\<rparr>,
                  \<lparr>href = Some ''#contact'', fontWeight = ''500''\<rparr>],
      scrollY = y,
      scroll_requests = []\<rparr>"

definition sample_lang_state :: lang_state where
  "sample_lang_state =
     \<lparr>currentLang = ''en'',
      langToggle_textContent = ''FR'',
      document_elements =
        [\<lparr>lang_dataset = [''en'' \<mapsto> ''Welcome'', ''fr'' \<mapsto> ''Bienvenue''],
          textContent = ''Welcome!''\<rparr>,
         \<lparr>lang_dataset = [''en'' \<mapsto> ''Work'', ''fr'' \<mapsto> ''Travaux''],
          textContent = ''Work''\<rparr>,
         \<lparr>lang_dataset = Map.empty, textContent = ''2024''\<rparr>]\<rparr>"


section \<open>Lemmas about the modal, the navigation links and the toggle\<close>

lemma openModal_Inr:
  "openModal items index st = Inr st' \<Longrightarrow>
     \<exists>i. index = Number i \<and> 0 \<le> i \<and> i < int (length items)
       \<and> currentIndex st' = Number i \<and> shows_item (items ! nat i) st' \<and> modal_active st'
       \<and> modal_classList st' = classList_add ''active'' (modal_classList st)"
  by (cases index)
    (auto simp: openModal_def shows_item_def modal_active_def classList_contains_def
      classList_add_def split: option.splits if_splits)

lemma openModal_Inl: "openModal items index st = Inl e \<Longrightarrow> e = TypeError"
  by (auto simp: openModal_def split: option.splits)

lemma openModal_succeeds:
  assumes "0 \<le> i" "i < int (length items)" "img (items ! nat i) = Some s"
  shows "openModal items (Number i) st =
     Inr (st\<lparr>modalImg_src := s,
             modalTitle_textContent := textContent_value (dataset (items ! nat i) ''title''),
             modalMeta_textContent :=
               template_value (dataset (items ! nat i) ''medium'') @ meta_separator
                 @ template_value (dataset (items ! nat i) ''year''),
             currentIndex := Number i,
             modal_classList := classList_add ''active'' (modal_classList st)\<rparr>)"
  using assms by (simp add: openModal_def)

lemma openModal_again:
  "openModal items index st = Inr st' \<Longrightarrow> openModal items index2 st' = openModal items index2 st"
  by (auto simp: openModal_def classList_add_def split: option.splits)

lemma js_rem_nonneg:
  "0 \<le> a \<Longrightarrow> 0 < b \<Longrightarrow> js_rem (Number a) (Number b) = Number (a mod b)"
  by (cases "a = 0") (simp_all add: sgn_if)

lemma showPrev_index:
  assumes "currentIndex st = Number i" "0 \<le> i" "i < int (length items)"
  shows "showPrev items st =
     openModal items (Number ((i - 1 + int (length items)) mod int (length items))) st"
proof -
  have "0 \<le> i - 1 + int (length items)" and "0 < int (length items)"
    using assms by linarith+
  then have "js_rem (Number (i - 1 + int (length items))) (Number (int (length items)))
      = Number ((i - 1 + int (length items)) mod int (length items))"
    by (rule js_rem_nonneg)
  then show ?thesis using assms by (simp add: showPrev_def items_length_def)
qed

lemma showNext_index:
  assumes "currentIndex st = Number i" "0 \<le> i" "i < int (length items)"
  shows "showNext items st = openModal items (Number ((i + 1) mod int (length items))) st"
proof -
  have "0 \<le> i + 1" and "0 < int (length items)"
    using assms by linarith+
  then have "js_rem (Number (i + 1)) (Number (int (length items)))
      = Number ((i + 1) mod int (length items))"
    by (rule js_rem_nonneg)
  then show ?thesis using assms by (simp add: showNext_def items_length_def)
qed

lemma modal_close_simps:
  "currentIndex (modal_close st) = currentIndex st"
  "modalImg_src (modal_close st) = modalImg_src st"
  "modalTitle_textContent (modal_close st) = modalTitle_textContent st"
  "modalMeta_textContent (modal_close st) = modalMeta_textContent st"
  "modal_classList (modal_close st) = classList_remove ''active'' (modal_classList st)"
  by (simp_all add: modal_close_def)

lemma index_in_bounds_openModal:
  "openModal items index st = Inr st' \<Longrightarrow> index_in_bounds items st'"
  by (drule openModal_Inr) (auto simp: index_in_bounds_def)

lemma index_in_bounds_close: "index_in_bounds items (modal_close st) = index_in_bounds items st"
  by (simp add: index_in_bounds_def modal_close_simps)

lemma index_in_bounds_keydown:
  "index_in_bounds items st \<Longrightarrow> keydown items key st = Inr st' \<Longrightarrow> index_in_bounds items st'"
  by (auto simp: keydown_def showPrev_def showNext_def index_in_bounds_close
      split: if_splits sum.splits dest: index_in_bounds_openModal)

lemma index_in_bounds_listener:
  "index_in_bounds items st \<Longrightarrow> modal_listener items ev st = Inr st' \<Longrightarrow> index_in_bounds items st'"
  by (cases ev)
    (auto simp: showPrev_def showNext_def index_in_bounds_close
      dest: index_in_bounds_openModal index_in_bounds_keydown)

lemma index_in_bounds_dispatch:
  "index_in_bounds items st \<Longrightarrow> index_in_bounds items (modal_dispatch items ev st)"
  by (auto simp: modal_dispatch_def split: sum.splits dest: index_in_bounds_listener)

lemma index_in_bounds_run:
  "index_in_bounds items st \<Longrightarrow> index_in_bounds items (modal_run items evs st)"
  by (induction evs arbitrary: st) (auto intro: index_in_bounds_dispatch)

lemma openModal_total:
  assumes "\<forall>item \<in> set items. img item \<noteq> None" "0 \<le> j" "j < int (length items)"
  shows "\<exists>s. openModal items (Number j) st = Inr s"
proof -
  have "items ! nat j \<in> set items" using assms(2,3) by simp
  then obtain src where "img (items ! nat j) = Some src" using assms(1) by auto
  then show ?thesis using assms(2,3) by (simp add: openModal_succeeds)
qed

lemma showNext_opened:
  assumes "openModal items (Number j) st0 = Inr s"
  shows "showNext items s = openModal items (Number ((j + 1) mod int (length items))) st0"
proof -
  from openModal_Inr [OF assms] have "currentIndex s = Number j" "0 \<le> j" "j < int (length items)"
    by auto
  then have "showNext items s = openModal items (Number ((j + 1) mod int (length items))) s"
    by (rule showNext_index)
  then show ?thesis by (simp add: openModal_again [OF assms])
qed

lemma showPrev_opened:
  assumes "openModal items (Number j) st0 = Inr s"
  shows "showPrev items s =
     openModal items (Number ((j - 1 + int (length items)) mod int (length items))) st0"
proof -
  from openModal_Inr [OF assms] have "currentIndex s = Number j" "0 \<le> j" "j < int (length items)"
    by auto
  then have "showPrev items s =
      openModal items (Number ((j - 1 + int (length items)) mod int (length items))) s"
    by (rule showPrev_index)
  then show ?thesis by (simp add: openModal_again [OF assms])
qed

lemma showNext_times_opened:
  assumes imgs: "\<forall>item \<in> set items. img item \<noteq> None"
  shows "openModal items (Number j) st0 = Inr s \<Longrightarrow>
     showNext_times items k s = openModal items (Number ((j + int k) mod int (length items))) st0"
proof (induction k arbitrary: j s)
  case 0
  from openModal_Inr [OF 0] have "0 \<le> j" "j < int (length items)" by auto
  then show ?case using 0 by simp
next
  case (Suc k)
  let ?N = "int (length items)"
  from openModal_Inr [OF Suc.prems] have j: "0 \<le> j" "j < ?N" by auto
  then have "0 < ?N" by linarith
  then have "0 \<le> (j + 1) mod ?N" "(j + 1) mod ?N < ?N" by simp_all
  from openModal_total [OF imgs this] obtain s'
    where s': "openModal items (Number ((j + 1) mod ?N)) st0 = Inr s'" by blast
  have "showNext items s = Inr s'" using showNext_opened [OF Suc.prems] s' by simp
  then have "showNext_times items (Suc k) s = showNext_times items k s'" by simp
  also have "\<dots> = openModal items (Number (((j + 1) mod ?N + int k) mod ?N)) st0"
    by (rule Suc.IH [OF s'])
  also have "((j + 1) mod ?N + int k) mod ?N = (j + 1 + int k) mod ?N"
    by (rule mod_add_left_eq)
  also have "j + 1 + int k = j + int (Suc k)" by simp
  finally show ?case .
qed

lemma nav_link_click_no_target:
  assumes "k < length (navLinks st)"
    and "querySelector pg (null_to_string (href (navLinks st ! k))) = Inr None"
  shows "nav_link_click pg k st = ([TypeError], st)"
  using assms
  by (simp add: nav_link_click_def run_listener_def scrollIntoView_click_def
      initSmoothScroll_click_def)

lemma initSmoothScroll_click_no_target:
  "querySelector pg (null_to_string (href (navLinks st ! k))) = Inr None \<Longrightarrow>
     initSmoothScroll_click pg k st = Inr st"
  by (simp add: initSmoothScroll_click_def)

lemma currentSection_loop_last:
  "currentSection_loop navHeight y cur secs =
     (if filter (in_band navHeight y) secs = [] then cur
      else element_id (last (filter (in_band navHeight y) secs)))"
  by (induction secs arbitrary: cur) simp_all

lemma in_band_explicit:
  "in_band navHeight y =
     (\<lambda>section. of_int (offsetTop section - navHeight - 100) \<le> y
        \<and> y < of_int (offsetTop section - navHeight - 100 + offsetHeight section))"
  by (simp add: in_band_def Let_def fun_eq_iff)

lemma langToggle_click_simps:
  "currentLang (langToggle_click st) = (if currentLang st = ''en'' then ''fr'' else ''en'')"
  "langToggle_textContent (langToggle_click st) = (if currentLang st = ''en'' then ''EN'' else ''FR'')"
  "document_elements (langToggle_click st) =
     map (\<lambda>el. if has_data_en el
                then el\<lparr>textContent := textContent_value
                        (lang_dataset el (if currentLang st = ''en'' then ''fr'' else ''en''))\<rparr>
                else el) (document_elements st)"
  by (simp_all add: langToggle_click_def Let_def)


section \<open>The claims\<close>

subsection \<open>C1: what \<open>openModal\<close> writes\<close>

text \<open>
  Claim C1 says that \<open>openModal(i)\<close>, for an index within the list, sets the current
  index to \<open>i\<close>, the image source and the title to those of item \<open>i\<close>, the metadata
  text to the medium, a space, an em dash, a space and the year, and marks the modal
  active. On the first sample item (medium \<open>Oil\<close>, year \<open>2020\<close>) the index, image,
  title and class are set as claimed, but the metadata text is the medium, a space, the
  eight bytes \<open>C3 A2 E2 82 AC E2 80 9D\<close> of the script's template literal, a space and the
  year. That is not the text with the em dash (bytes \<open>E2 80 94\<close>): the literal holds an
  em dash whose UTF-8 bytes were read as Windows-1252 and encoded again.
  The lemma \<open>openModal_succeeds\<close> gives the result for every item that has an image.
\<close>

theorem openModal_meta_not_em_dash:
  "openModal sample_items (Number 0) sample_modal_state =
     Inr \<lparr>currentIndex = Number 0, modalImg_src = ''img/dawn.jpg'',
          modalTitle_textContent = ''Dawn'',
          modalMeta_textContent =
            ''Oil'' @ [CHR '' '', CHR 0xC3, CHR 0xA2, CHR 0xE2, CHR 0x82, CHR 0xAC, CHR 0xE2,
                       CHR 0x80, CHR 0x9D, CHR '' ''] @ ''2020'',
          modal_classList = [''modal'', ''active'']\<rparr>
   \<and> ''Oil'' @ meta_separator @ ''2020'' \<noteq> ''Oil'' @ em_dash_separator @ ''2020''"
  by (simp add: openModal_def sample_items_def sample_modal_state_def
      textContent_value_def template_value_def classList_add_def meta_separator_def
      em_dash_separator_def)

subsection \<open>C2: previous and next move around a cycle\<close>

text \<open>
  Claim C2: with at least one work item, each of which has an image, let \<open>st\<close> be the
  state that \<open>openModal(i)\<close> produces from any state \<open>st0\<close>, for \<open>i\<close> within the list.
  Then \<open>showPrev\<close> from \<open>st\<close> produces the state that \<open>openModal((i - 1 + N) mod N)\<close>
  produces from \<open>st0\<close>, \<open>showNext\<close> the one that \<open>openModal((i + 1) mod N)\<close> produces,
  \<open>showPrev\<close> followed by \<open>showNext\<close> returns exactly \<open>st\<close>, and so do \<open>N\<close> calls
  of \<open>showNext\<close> in a row. None of these calls throws.
\<close>

theorem prev_next_round_trip:
  assumes "1 \<le> length items" and "i < length items"
    and imgs: "\<forall>item \<in> set items. img item \<noteq> None"
    and opened: "openModal items (Number (int i)) st0 = Inr st"
  shows "showPrev items st =
       openModal items (Number ((int i - 1 + int (length items)) mod int (length items))) st0
     \<and> showNext items st = openModal items (Number ((int i + 1) mod int (length items))) st0
     \<and> (\<exists>st1. showPrev items st = Inr st1 \<and> showNext items st1 = Inr st)
     \<and> showNext_times items (length items) st = Inr st"
proof -
  let ?N = "int (length items)"
  let ?p = "(int i - 1 + ?N) mod ?N"
  have i: "0 \<le> int i" "int i < ?N" using assms(2) by simp_all
  then have N: "0 < ?N" by linarith
  have prev: "showPrev items st = openModal items (Number ?p) st0"
    by (rule showPrev_opened [OF opened])
  have nxt: "showNext items st = openModal items (Number ((int i + 1) mod ?N)) st0"
    by (rule showNext_opened [OF opened])
  have "0 \<le> ?p" "?p < ?N" using N by simp_all
  from openModal_total [OF imgs this] obtain st1
    where st1: "openModal items (Number ?p) st0 = Inr st1" by blast
  have "(?p + 1) mod ?N = (int i - 1 + ?N + 1) mod ?N" by (rule mod_add_left_eq)
  also have "\<dots> = int i" using i by simp
  finally have wrap: "(?p + 1) mod ?N = int i" .
  have "showNext items st1 = Inr st"
    using showNext_opened [OF st1] wrap opened by simp
  then have round: "\<exists>st1. showPrev items st = Inr st1 \<and> showNext items st1 = Inr st"
    using prev st1 by simp
  have "showNext_times items (length items) st =
      openModal items (Number ((int i + ?N) mod ?N)) st0"
    by (rule showNext_times_opened [OF imgs opened])
  also have "(int i + ?N) mod ?N = int i" using i by simp
  finally have cycle: "showNext_times items (length items) st = Inr st" using opened by simp
  show ?thesis using prev nxt round cycle by blast
qed

text \<open>
  The instance of C2 on the three sample items, opened on the first: previous wraps to
  the third item, and three calls of next come back to the first.
\<close>

theorem prev_next_round_trip_witness:
  "1 \<le> length sample_items \<and> 0 < length sample_items
   \<and> map img sample_items = [Some ''img/dawn.jpg'', Some ''img/dusk.jpg'', Some ''img/noon.jpg'']
   \<and> openModal sample_items (Number (int 0)) sample_modal_state =
       Inr (sample_open ''img/dawn.jpg'' ''Dawn'' (''Oil'' @ meta_separator @ ''2020'') 0)
   \<and> showPrev sample_items (sample_open ''img/dawn.jpg'' ''Dawn'' (''Oil'' @ meta_separator @ ''2020'') 0) =
       Inr (sample_open ''img/noon.jpg'' ''Noon'' (''Clay'' @ meta_separator @ ''2022'') 2)
   \<and> showNext_times sample_items (length sample_items)
        (sample_open ''img/dawn.jpg'' ''Dawn'' (''Oil'' @ meta_separator @ ''2020'') 0) =
       Inr (sample_open ''img/dawn.jpg'' ''Dawn'' (''Oil'' @ meta_separator @ ''2020'') 0)"
proof -
  have h1: "1 \<le> length sample_items" and h2: "0 < length sample_items"
    by (simp_all add: sample_items_def)
  have h3: "\<forall>item \<in> set sample_items. img item \<noteq> None"
    by (simp add: sample_items_def)
  have h4: "openModal sample_items (Number (int 0)) sample_modal_state =
       Inr (sample_open ''img/dawn.jpg'' ''Dawn'' (''Oil'' @ meta_separator @ ''2020'') 0)"
    by (simp add: openModal_def sample_items_def sample_modal_state_def sample_open_def
      textContent_value_def template_value_def classList_add_def)
  have h5: "openModal sample_items (Number 2) sample_modal_state =
       Inr (sample_open ''img/noon.jpg'' ''Noon'' (''Clay'' @ meta_separator @ ''2022'') 2)"
    by (simp add: openModal_def sample_items_def sample_modal_state_def sample_open_def
      textContent_value_def template_value_def classList_add_def)
  have len: "length sample_items = 3" by (simp add: sample_items_def)
  have imgs: "map img sample_items =
      [Some ''img/dawn.jpg'', Some ''img/dusk.jpg'', Some ''img/noon.jpg'']"
    by (simp add: sample_items_def)
  show ?thesis
    using prev_next_round_trip [OF h1 h2 h3 h4] h1 h2 h4 h5 imgs by (simp add: len)
qed

subsection \<open>C3: a navigation link without a target\<close>

text \<open>
  Claim C3 says that a click on a navigation link whose fragment matches no element is a
  silent no-op. On the sample page the third link points at \<open>#contact\<close>, which no
  element has. The click leaves the links, the scroll position and the scroll requests as
  they were, and the listener of \<open>initSmoothScroll\<close> returns without doing anything; but
  the listener of the second smooth-scroll block calls \<open>scrollIntoView\<close> on \<open>null\<close>, so
  the click reports an uncaught \<open>TypeError\<close>. The lemma \<open>nav_link_click_no_target\<close>
  shows the same for every page and every such link.
\<close>

theorem nav_link_click_missing_target:
  "nav_link_click sample_page 2 sample_nav_state = ([TypeError], sample_nav_state)
   \<and> initSmoothScroll_click sample_page 2 sample_nav_state = Inr sample_nav_state
   \<and> scrollIntoView_click sample_page 2 sample_nav_state = Inl TypeError"
  by (simp add: nav_link_click_def run_listener_def scrollIntoView_click_def
      initSmoothScroll_click_def sample_page_def sample_nav_state_def null_to_string_def)

subsection \<open>C4: two clicks on the language toggle\<close>

text \<open>
  Claim C4 says that two clicks on the toggle return the text of every element that has
  the language attribute to what it was, whatever that text was. The first sample element
  shows \<open>Welcome!\<close> while its \<open>data-en\<close> attribute is \<open>Welcome\<close>: after two clicks it
  shows \<open>Welcome\<close>.
\<close>

theorem langToggle_twice_counterexample:
  "textContent (document_elements sample_lang_state ! 0) = ''Welcome!''
   \<and> has_data_en (document_elements sample_lang_state ! 0)
   \<and> textContent (document_elements (langToggle_click (langToggle_click sample_lang_state)) ! 0)
       = ''Welcome''
   \<and> textContent (document_elements (langToggle_click (langToggle_click sample_lang_state)) ! 0)
       \<noteq> textContent (document_elements sample_lang_state ! 0)"
  by (simp add: langToggle_click_simps sample_lang_state_def has_data_en_def
      textContent_value_def)

text \<open>
  Claim C4 as amended: when the language flag is \<open>en\<close> or \<open>fr\<close>, two clicks on the
  toggle restore the flag and leave every element that has the \<open>data-en\<close> attribute
  showing its own attribute for the language that was current before the first click (the
  empty text when it has no such attribute). So the element's text is back at its earlier
  value exactly when that value was this attribute's text; this is the case after any
  earlier click, since a third click gives the text the first one gave.
\<close>

theorem langToggle_twice_attribute_text:
  assumes "currentLang st = ''en'' \<or> currentLang st = ''fr''"
    and "k < length (document_elements st)"
    and "has_data_en (document_elements st ! k)"
  shows "currentLang (langToggle_click (langToggle_click st)) = currentLang st
    \<and> textContent (document_elements (langToggle_click (langToggle_click st)) ! k) =
        textContent_value (lang_dataset (document_elements st ! k) (currentLang st))
    \<and> (textContent (document_elements (langToggle_click (langToggle_click st)) ! k)
         = textContent (document_elements st ! k)
       \<longleftrightarrow> textContent (document_elements st ! k)
         = textContent_value (lang_dataset (document_elements st ! k) (currentLang st)))
    \<and> textContent (document_elements
          (langToggle_click (langToggle_click (langToggle_click st))) ! k)
        = textContent (document_elements (langToggle_click st) ! k)"
  using assms by (auto simp: langToggle_click_simps has_data_en_def)

text \<open>
  The instance of amended C4 on the second sample element, whose text is its
  \<open>data-en\<close> attribute.
\<close>

theorem langToggle_twice_attribute_text_witness:
  "(currentLang sample_lang_state = ''en'' \<or> currentLang sample_lang_state = ''fr'')
   \<and> 1 < length (document_elements sample_lang_state)
   \<and> has_data_en (document_elements sample_lang_state ! 1)
   \<and> textContent (document_elements (langToggle_click (langToggle_click sample_lang_state)) ! 1)
       = ''Work''
   \<and> textContent (document_elements (langToggle_click (langToggle_click sample_lang_state)) ! 1)
       = textContent (document_elements sample_lang_state ! 1)"
proof -
  have h1: "currentLang sample_lang_state = ''en'' \<or> currentLang sample_lang_state = ''fr''"
    and h2: "1 < length (document_elements sample_lang_state)"
    and h3: "has_data_en (document_elements sample_lang_state ! 1)"
    by (simp_all add: sample_lang_state_def has_data_en_def)
  have v: "textContent_value (lang_dataset (document_elements sample_lang_state ! 1)
        (currentLang sample_lang_state)) = ''Work''"
    and t: "textContent (document_elements sample_lang_state ! 1) = ''Work''"
    by (simp_all add: sample_lang_state_def textContent_value_def)
  show ?thesis using langToggle_twice_attribute_text [OF h1 h2 h3] h1 h2 h3 v t by simp
qed

subsection \<open>C5: one click on the language toggle\<close>

text \<open>
  Claim C5: when the language flag is \<open>en\<close> or \<open>fr\<close>, one click on the toggle turns the
  flag into the other value, labels the toggle with the code of the language that is now
  not current (\<open>EN\<close> when the flag is \<open>fr\<close>, \<open>FR\<close> when it is \<open>en\<close>), and gives every
  element that has the \<open>data-en\<close> attribute the text of its attribute for the new
  language (the empty text when that attribute is missing); the attributes themselves and
  the elements without \<open>data-en\<close> stay as they were. From the flag \<open>en\<close> the result is
  the flag \<open>fr\<close>, the label \<open>EN\<close>, and each such element showing its \<open>data-fr\<close> text.
\<close>

theorem langToggle_click_effect:
  assumes "currentLang st = ''en'' \<or> currentLang st = ''fr''"
  shows "currentLang (langToggle_click st) = (if currentLang st = ''en'' then ''fr'' else ''en'')
    \<and> currentLang (langToggle_click st) \<noteq> currentLang st
    \<and> langToggle_textContent (langToggle_click st) =
        (if currentLang (langToggle_click st) = ''fr'' then ''EN'' else ''FR'')
    \<and> length (document_elements (langToggle_click st)) = length (document_elements st)
    \<and> (\<forall>k < length (document_elements st).
         lang_dataset (document_elements (langToggle_click st) ! k)
           = lang_dataset (document_elements st ! k)
         \<and> (has_data_en (document_elements st ! k) \<longrightarrow>
              textContent (document_elements (langToggle_click st) ! k) =
                textContent_value (lang_dataset (document_elements st ! k)
                  (currentLang (langToggle_click st))))
         \<and> (\<not> has_data_en (document_elements st ! k) \<longrightarrow>
              document_elements (langToggle_click st) ! k = document_elements st ! k))
    \<and> (currentLang st = ''en'' \<longrightarrow>
         currentLang (langToggle_click st) = ''fr''
         \<and> langToggle_textContent (langToggle_click st) = ''EN''
         \<and> (\<forall>k < length (document_elements st). \<forall>text.
              has_data_en (document_elements st ! k)
              \<and> lang_dataset (document_elements st ! k) ''fr'' = Some text \<longrightarrow>
                textContent (document_elements (langToggle_click st) ! k) = text))"
  using assms by (auto simp: langToggle_click_simps textContent_value_def)

text \<open>The instance of C5 on the sample document, whose flag is \<open>en\<close>.\<close>

theorem langToggle_click_effect_witness:
  "(currentLang sample_lang_state = ''en'' \<or> currentLang sample_lang_state = ''fr'')
   \<and> currentLang (langToggle_click sample_lang_state) = ''fr''
   \<and> langToggle_textContent (langToggle_click sample_lang_state) = ''EN''
   \<and> textContent (document_elements (langToggle_click sample_lang_state) ! 0) = ''Bienvenue''
   \<and> textContent (document_elements (langToggle_click sample_lang_state) ! 1) = ''Travaux''
   \<and> document_elements (langToggle_click sample_lang_state) ! 2
       = document_elements sample_lang_state ! 2"
proof -
  have h: "currentLang sample_lang_state = ''en'' \<or> currentLang sample_lang_state = ''fr''"
    and en: "currentLang sample_lang_state = ''en''"
    by (simp_all add: sample_lang_state_def)
  have len: "length (document_elements sample_lang_state) = 3"
    by (simp add: sample_lang_state_def)
  have e0: "has_data_en (document_elements sample_lang_state ! 0)"
      "lang_dataset (document_elements sample_lang_state ! 0) ''fr'' = Some ''Bienvenue''"
    and e1: "has_data_en (document_elements sample_lang_state ! 1)"
      "lang_dataset (document_elements sample_lang_state ! 1) ''fr'' = Some ''Travaux''"
    and e2: "\<not> has_data_en (document_elements sample_lang_state ! 2)"
    by (simp_all add: sample_lang_state_def has_data_en_def)
  from langToggle_click_effect [OF h] have
    all: "\<forall>k < length (document_elements sample_lang_state).
         lang_dataset (document_elements (langToggle_click sample_lang_state) ! k)
           = lang_dataset (document_elements sample_lang_state ! k)
         \<and> (has_data_en (document_elements sample_lang_state ! k) \<longrightarrow>
              textContent (document_elements (langToggle_click sample_lang_state) ! k) =
                textContent_value (lang_dataset (document_elements sample_lang_state ! k)
                  (currentLang (langToggle_click sample_lang_state))))
         \<and> (\<not> has_data_en (document_elements sample_lang_state ! k) \<longrightarrow>
              document_elements (langToggle_click sample_lang_state) ! k
                = document_elements sample_lang_state ! k)"
    and fr: "currentLang (langToggle_click sample_lang_state) = ''fr''"
    and label: "langToggle_textContent (langToggle_click sample_lang_state) = ''EN''"
    using en by simp_all
  have "(0::nat) < 3" "(1::nat) < 3" "(2::nat) < 3" by simp_all
  then show ?thesis
    using all [unfolded len, rule_format] h fr label e0 e1 e2
    by (simp add: textContent_value_def)
qed

subsection \<open>C6: the current index stays within the list\<close>

text \<open>
  Claim C6: with at least one work item and the current index at its initial value 0, the
  current index is an integer \<open>i\<close> with \<open>0 \<le> i < N\<close> after every sequence of modal
  events (item clicks, close, previous, next, the overlay halves, key presses), the
  empty sequence included.
\<close>

theorem currentIndex_in_bounds: 
  "1 \<le> length items \<Longrightarrow> currentIndex st = Number 0 \<Longrightarrow>
     (\<exists>i. currentIndex (modal_run items evs st) = Number i \<and> 0 \<le> i \<and> i < int (length items))"
proof -
  assume "1 \<le> length items" "currentIndex st = Number 0"
  then have "index_in_bounds items st" by (cases items) (simp_all add: index_in_bounds_def)
  then have "index_in_bounds items (modal_run items evs st)" by (rule index_in_bounds_run)
  then show ?thesis by (auto simp: index_in_bounds_def split: number.splits)
qed

text \<open>
  The instance of C6 on the sample items and a sequence of six events, the last of which
  is a click that finds no item.
\<close>

theorem currentIndex_in_bounds_witness:
  "1 \<le> length sample_items \<and> currentIndex sample_modal_state = Number 0
   \<and> (\<exists>i. currentIndex (modal_run sample_items
            [ItemClick 1, PrevClick, KeyDown ''ArrowLeft'', CloseClick, NextClick, ItemClick 7]
            sample_modal_state) = Number i
         \<and> 0 \<le> i \<and> i < int (length sample_items))"
proof -
  have h1: "1 \<le> length sample_items" by (simp add: sample_items_def)
  have h2: "currentIndex sample_modal_state = Number 0" by (simp add: sample_modal_state_def)
  show ?thesis using currentIndex_in_bounds [OF h1 h2] h1 h2 by blast
qed

subsection \<open>C7: closing only removes the active class\<close>

text \<open>
  Claim C7: the close button, and the escape key while the modal is active, change the
  state to \<open>modal_close st\<close>, in which the current index, the image source, the title and
  the metadata text are those of \<open>st\<close>, the class \<open>active\<close> is gone, and every other
  class of the modal is present exactly when it was before.
\<close>

theorem modal_close_frame:
  "modal_listener items CloseClick st = Inr (modal_close st)
   \<and> (classList_contains ''active'' (modal_classList st) \<longrightarrow>
        keydown items ''Escape'' st = Inr (modal_close st))
   \<and> currentIndex (modal_close st) = currentIndex st
   \<and> modalImg_src (modal_close st) = modalImg_src st
   \<and> modalTitle_textContent (modal_close st) = modalTitle_textContent st
   \<and> modalMeta_textContent (modal_close st) = modalMeta_textContent st
   \<and> \<not> classList_contains ''active'' (modal_classList (modal_close st))
   \<and> (\<forall>c. c \<noteq> ''active'' \<longrightarrow>
        classList_contains c (modal_classList (modal_close st))
          = classList_contains c (modal_classList st))"
  by (simp add: keydown_def modal_close_simps classList_contains_def classList_remove_def)

text \<open>
  The instance of C7 on an open modal that shows the second sample item: escape keeps the
  index 1 and the content, and leaves the class list with \<open>modal\<close> alone.
\<close>

theorem modal_close_frame_witness:
  "classList_contains ''active''
     (modal_classList (sample_open ''img/dusk.jpg'' ''Dusk'' ''Ink 2021'' 1))
   \<and> keydown sample_items ''Escape'' (sample_open ''img/dusk.jpg'' ''Dusk'' ''Ink 2021'' 1) =
       Inr \<lparr>currentIndex = Number 1, modalImg_src = ''img/dusk.jpg'',
            modalTitle_textContent = ''Dusk'', modalMeta_textContent = ''Ink 2021'',
            modal_classList = [''modal'']\<rparr>
   \<and> classList_contains ''modal''
       (modal_classList (modal_close (sample_open ''img/dusk.jpg'' ''Dusk'' ''Ink 2021'' 1)))"
proof -
  have h: "classList_contains ''active''
     (modal_classList (sample_open ''img/dusk.jpg'' ''Dusk'' ''Ink 2021'' 1))"
    by (simp add: sample_open_def classList_contains_def)
  have c: "modal_close (sample_open ''img/dusk.jpg'' ''Dusk'' ''Ink 2021'' 1) =
       \<lparr>currentIndex = Number 1, modalImg_src = ''img/dusk.jpg'',
        modalTitle_textContent = ''Dusk'', modalMeta_textContent = ''Ink 2021'',
        modal_classList = [''modal'']\<rparr>"
    by (simp add: sample_open_def modal_close_def classList_remove_def)
  have m: "classList_contains ''modal''
     (modal_classList (sample_open ''img/dusk.jpg'' ''Dusk'' ''Ink 2021'' 1))"
    by (simp add: sample_open_def classList_contains_def)
  show ?thesis
    using modal_close_frame [of sample_items "sample_open ''img/dusk.jpg'' ''Dusk'' ''Ink 2021'' 1"] h c m
    by simp
qed

subsection \<open>C8: keys do nothing while the modal is closed\<close>

text \<open>
  Claim C8: while the modal does not carry the class \<open>active\<close>, the keydown listener
  returns the state it was given, for every key, and so the state after the event is the
  state before it.
\<close>

theorem keydown_closed_noop:
  "\<not> classList_contains ''active'' (modal_classList st) \<Longrightarrow>
     keydown items key st = Inr st \<and> modal_dispatch items (KeyDown key) st = st"
  by (simp add: keydown_def modal_dispatch_def)

text \<open>The instance of C8 on the sample modal, which is closed, and the left arrow key.\<close>

theorem keydown_closed_noop_witness:
  "\<not> classList_contains ''active'' (modal_classList sample_modal_state)
   \<and> keydown sample_items ''ArrowLeft'' sample_modal_state = Inr sample_modal_state
   \<and> modal_dispatch sample_items (KeyDown ''ArrowLeft'') sample_modal_state = sample_modal_state"
proof -
  have h: "\<not> classList_contains ''active'' (modal_classList sample_modal_state)"
    by (simp add: sample_modal_state_def classList_contains_def)
  show ?thesis using keydown_closed_noop [OF h, of sample_items "''ArrowLeft''"] h by simp
qed

subsection \<open>C9: the links the scroll spy bolds\<close>

text \<open>
  Claim C9 says that on every scroll event the scroll spy bolds the link of the section
  whose band contains the scroll position and sets every other link to normal weight. On
  the sample page at scroll position 100 the band of none of the three sections
  (\<open>about\<close>, \<open>work\<close>, \<open>contact\<close>) contains the position, and the listener bolds the
  link whose \<open>href\<close> is \<open>#\<close>, which is the link of no section: \<open>currentSection\<close>
  keeps its initial empty text and the comparison is with \<open>#\<close> followed by it.
\<close>

theorem scrollSpy_no_match_counterexample:
  "map element_id (sections sample_spy_page) = [Some ''about'', Some ''work'', Some ''contact'']
   \<and> filter (\<lambda>section. of_int (offsetTop section - 70 - 100) \<le> scrollY (sample_spy_state 100)
          \<and> scrollY (sample_spy_state 100)
              < of_int (offsetTop section - 70 - 100 + offsetHeight section))
       (sections sample_spy_page) = []
   \<and> navLinks (scrollSpy sample_spy_page 70 (sample_spy_state 100)) =
       [\<lparr>href = Some ''#'', fontWeight = ''700''\<rparr>,
        \<lparr>href = Some ''#about'', fontWeight = ''500''\<rparr>,
        \<lparr>href = Some ''#work'', fontWeight = ''500''\<rparr>,
        \<lparr>href = Some ''#contact'', fontWeight = ''500''\<rparr>]"
  by (simp add: scrollSpy_def in_band_def spy_link_def null_to_string_def Let_def
      sample_spy_page_def sample_spy_state_def sample_about_def sample_work_def
      sample_contact_def)

text \<open>
  Claim C9 as amended: on every scroll event, let \<open>matching\<close> be the sections, in
  document order, whose band
  \<open>[offsetTop - navHeight - 100, offsetTop - navHeight - 100 + offsetHeight)\<close> contains the
  scroll position. The listener gives the font weight 700 to exactly the links whose
  \<open>href\<close> is \<open>#\<close> followed by the \<open>id\<close> of the last section of \<open>matching\<close> (by
  \<open>null\<close> when that section has no \<open>id\<close>), and the weight 500 to every other link;
  when \<open>matching\<close> is empty, the links it bolds are those whose \<open>href\<close> is \<open>#\<close>
  alone. The scroll position and the scroll requests are not touched.
\<close>

theorem scrollSpy_last_matching:
  "(let y = scrollY st;
        matching =
          filter (\<lambda>section. of_int (offsetTop section - navHeight - 100) \<le> y
                    \<and> y < of_int (offsetTop section - navHeight - 100 + offsetHeight section))
            (sections pg);
        target = (if matching = [] then ''#''
                  else ''#'' @ null_to_string (element_id (last matching)))
    in navLinks (scrollSpy pg navHeight st) =
         map (\<lambda>link. link\<lparr>fontWeight :=
                (if href link = Some target then ''700'' else ''500'')\<rparr>) (navLinks st)
       \<and> scrollY (scrollSpy pg navHeight st) = scrollY st
       \<and> scroll_requests (scrollSpy pg navHeight st) = scroll_requests st)"
  by (simp add: scrollSpy_def currentSection_loop_last spy_link_def Let_def
      null_to_string_def in_band_explicit)

text \<open>
  Two instances of amended C9 on the sample page. At 900.5 the bands of the first two
  sections contain the position and that of the third does not: the link of the second
  section is bold. At 500 only the band of the first section contains it: the link of the
  first section is bold.
\<close>

theorem scrollSpy_last_matching_witness:
  "filter (\<lambda>section. of_int (offsetTop section - 70 - 100) \<le> scrollY (sample_spy_state (1801 / 2))
          \<and> scrollY (sample_spy_state (1801 / 2))
              < of_int (offsetTop section - 70 - 100 + offsetHeight section))
       (sections sample_spy_page) = [sample_about, sample_work]
   \<and> navLinks (scrollSpy sample_spy_page 70 (sample_spy_state (1801 / 2))) =
       [\<lparr>href = Some ''#'', fontWeight = ''500''\<rparr>,
        \<lparr>href = Some ''#about'', fontWeight = ''500''\<rparr>,
        \<lparr>href = Some ''#work'', fontWeight = ''700''\<rparr>,
        \<lparr>href = Some ''#contact'', fontWeight = ''500''\<rparr>]
   \<and> navLinks (scrollSpy sample_spy_page 70 (sample_spy_state 500)) =
       [\<lparr>href = Some ''#'', fontWeight = ''500''\<rparr>,
        \<lparr>href = Some ''#about'', fontWeight = ''700''\<rparr>,
        \<lparr>href = Some ''#work'', fontWeight = ''500''\<rparr>,
        \<lparr>href = Some ''#contact'', fontWeight = ''500''\<rparr>]"
proof -
  have f: "filter (\<lambda>section. of_int (offsetTop section - 70 - 100) \<le> scrollY (sample_spy_state (1801 / 2))
          \<and> scrollY (sample_spy_state (1801 / 2))
              < of_int (offsetTop section - 70 - 100 + offsetHeight section))
       (sections sample_spy_page) = [sample_about, sample_work]"
    by (simp add: sample_spy_state_def sample_spy_page_def sample_about_def sample_work_def
        sample_contact_def)
  have g: "filter (\<lambda>section. of_int (offsetTop section - 70 - 100) \<le> scrollY (sample_spy_state 500)
          \<and> scrollY (sample_spy_state 500)
              < of_int (offsetTop section - 70 - 100 + offsetHeight section))
       (sections sample_spy_page) = [sample_about]"
    by (simp add: sample_spy_state_def sample_spy_page_def sample_about_def sample_work_def
        sample_contact_def)
  have l: "navLinks (sample_spy_state y) =
       [\<lparr>href = Some ''#'', fontWeight = ''500''\<rparr>,
        \<lparr>href = Some ''#about'', fontWeight = ''700''\<rparr>,
        \<lparr>href = Some ''#work'', fontWeight = ''500''\<rparr>,
        \<lparr>href = Some ''#contact'', fontWeight = ''500''\<rparr>]" for y
    by (simp add: sample_spy_state_def)
  have ids: "element_id sample_work = Some ''work''" "element_id sample_about = Some ''about''"
    by (simp_all add: sample_work_def sample_about_def)
  show ?thesis
    using scrollSpy_last_matching [of "sample_spy_state (1801 / 2)" 70 sample_spy_page]
      scrollSpy_last_matching [of "sample_spy_state 500" 70 sample_spy_page] f g
    by (simp add: Let_def l ids null_to_string_def)
qed

subsection \<open>C10: previous and next controls open a closed modal\<close>

text \<open>
  Claim C10: with at least one work item, each of which has an image, and the current
  index \<open>i\<close> within the list, a click on the previous button or on the left half of the
  overlay while the modal is closed calls \<open>openModal((i - 1 + N) mod N)\<close>, and a click on
  the next button or on the right half calls \<open>openModal((i + 1) mod N)\<close>; the call
  succeeds, marks the modal active, sets the current index and fills the modal with that
  item's image, title and metadata.
\<close>

theorem prev_next_controls_unguarded:
  assumes "1 \<le> length items"
    and index: "currentIndex st = Number i" "0 \<le> i" "i < int (length items)"
    and closed: "\<not> modal_active st"
    and imgs: "\<forall>item \<in> set items. img item \<noteq> None"
  shows "(let N = int (length items); p = (i - 1 + N) mod N; n = (i + 1) mod N in
      modal_listener items PrevClick st = openModal items (Number p) st
    \<and> modal_listener items OverlayLeftClick st = openModal items (Number p) st
    \<and> modal_listener items NextClick st = openModal items (Number n) st
    \<and> modal_listener items OverlayRightClick st = openModal items (Number n) st
    \<and> (\<exists>st'. openModal items (Number p) st = Inr st' \<and> modal_active st'
          \<and> currentIndex st' = Number p \<and> shows_item (items ! nat p) st')
    \<and> (\<exists>st'. openModal items (Number n) st = Inr st' \<and> modal_active st'
          \<and> currentIndex st' = Number n \<and> shows_item (items ! nat n) st'))"
proof -
  let ?N = "int (length items)"
  let ?p = "(i - 1 + ?N) mod ?N"
  let ?n = "(i + 1) mod ?N"
  have N: "0 < ?N" using index by linarith
  have p: "0 \<le> ?p" "?p < ?N" and n: "0 \<le> ?n" "?n < ?N" using N by simp_all
  from openModal_total [OF imgs p] obtain sp
    where sp: "openModal items (Number ?p) st = Inr sp" by blast
  from openModal_total [OF imgs n] obtain sn
    where sn: "openModal items (Number ?n) st = Inr sn" by blast
  have "modal_active sp \<and> currentIndex sp = Number ?p \<and> shows_item (items ! nat ?p) sp"
    using openModal_Inr [OF sp] by auto
  moreover have "modal_active sn \<and> currentIndex sn = Number ?n \<and> shows_item (items ! nat ?n) sn"
    using openModal_Inr [OF sn] by auto
  ultimately show ?thesis
    using sp sn showPrev_index [OF index] showNext_index [OF index] by (simp add: Let_def)
qed

text \<open>
  The instance of C10 on the sample modal, closed with index 0: the left half of the
  overlay opens the third item and the next button the second.
\<close>

theorem prev_next_controls_unguarded_witness:
  "1 \<le> length sample_items \<and> currentIndex sample_modal_state = Number 0
   \<and> \<not> modal_active sample_modal_state
   \<and> map img sample_items = [Some ''img/dawn.jpg'', Some ''img/dusk.jpg'', Some ''img/noon.jpg'']
   \<and> modal_listener sample_items OverlayLeftClick sample_modal_state =
       Inr (sample_open ''img/noon.jpg'' ''Noon'' (''Clay'' @ meta_separator @ ''2022'') 2)
   \<and> modal_listener sample_items NextClick sample_modal_state =
       Inr (sample_open ''img/dusk.jpg'' ''Dusk'' (''Ink'' @ meta_separator @ ''2021'') 1)"
proof -
  have h1: "1 \<le> length sample_items" by (simp add: sample_items_def)
  have h2: "currentIndex sample_modal_state = Number 0" by (simp add: sample_modal_state_def)
  have h3: "(0::int) \<le> 0" by simp
  have h4: "0 < int (length sample_items)" by (simp add: sample_items_def)
  have h5: "\<not> modal_active sample_modal_state"
    by (simp add: modal_active_def sample_modal_state_def classList_contains_def)
  have h6: "\<forall>item \<in> set sample_items. img item \<noteq> None" by (simp add: sample_items_def)
  have o2: "openModal sample_items (Number 2) sample_modal_state =
       Inr (sample_open ''img/noon.jpg'' ''Noon'' (''Clay'' @ meta_separator @ ''2022'') 2)"
    by (simp add: openModal_def sample_items_def sample_modal_state_def sample_open_def
      textContent_value_def template_value_def classList_add_def)
  have o1: "openModal sample_items (Number 1) sample_modal_state =
       Inr (sample_open ''img/dusk.jpg'' ''Dusk'' (''Ink'' @ meta_separator @ ''2021'') 1)"
    by (simp add: openModal_def sample_items_def sample_modal_state_def sample_open_def
      textContent_value_def template_value_def classList_add_def)
  have len: "length sample_items = 3" by (simp add: sample_items_def)
  have imgs: "map img sample_items =
      [Some ''img/dawn.jpg'', Some ''img/dusk.jpg'', Some ''img/noon.jpg'']"
    by (simp add: sample_items_def)
  show ?thesis
    using prev_next_controls_unguarded [OF h1 h2 h3 h4 h5 h6] h1 h2 h5 imgs o1 o2 by (simp add: Let_def len)
qed

end
